theory Spec2Isabelle
  imports Complex_Main "HOL-Library.Multiset"
begin

section \<open>Common notions\<close>

text \<open>
  Python exceptions are values: a computation that may raise returns \<open>error + 'a\<close>,
  with \<open>Inl\<close> for the exception. \<open>UnboundLocalError\<close> is Python's error for reading a
  local variable that no executed statement has assigned.

  Floating-point numbers are modelled by rationals: every result below is about the exact
  arithmetic of the formulas in the code, not about rounding.
\<close>

datatype error =
    IndexError | TypeError | ValueError | RuntimeError | UnboundLocalError
  | ZeroDivisionError | KeyError | AttributeError | AssertionError | NotImplementedError

text \<open>\<open>int(x)\<close> on a Python float or a 0-dim tensor truncates towards zero.\<close>

definition py_int :: "rat \<Rightarrow> int" where
  "py_int x = (if x < 0 then \<lceil>x\<rceil> else \<lfloor>x\<rfloor>)"

text \<open>A list of fallible results, evaluated left to right, stops at the first error.\<close>

fun sequence_err :: "(error + 'a) list \<Rightarrow> error + 'a list" where
  "sequence_err [] = Inr []"
| "sequence_err (Inl e # rs) = Inl e"
| "sequence_err (Inr x # rs) = (case sequence_err rs of Inl e \<Rightarrow> Inl e | Inr xs \<Rightarrow> Inr (x # xs))"


section \<open>dinov2/data/collate.py\<close>

subsection \<open>Crop tensors, by shape\<close>

text \<open>
  The collation of the image crops moves pixel data around without reading it; what the
  mask computation reads of the result is its shape. A crop tensor is therefore modelled
  by its shape, the list of its dimensions. The \<open>torch\<close> and \<open>einops\<close> functions below
  compute the shape of the result and raise where the library refuses the input shapes.
\<close>

type_synonym shape = "nat list"

definition tensor_index :: "shape \<Rightarrow> nat \<Rightarrow> error + shape" where
  "tensor_index t i = (case t of [] \<Rightarrow> Inl IndexError
     | n # r \<Rightarrow> if i < n then Inr r else Inl IndexError)"

definition same_shapes :: "shape list \<Rightarrow> bool" where
  "same_shapes ts = (case ts of [] \<Rightarrow> True | t # _ \<Rightarrow> list_all (\<lambda>u. u = t) ts)"

definition same_trailing :: "shape list \<Rightarrow> bool" where
  "same_trailing ts = (case ts of [] \<Rightarrow> True
     | t # _ \<Rightarrow> list_all (\<lambda>u. u \<noteq> [] \<and> tl u = tl t) ts)"

definition torch_stack :: "shape list \<Rightarrow> error + shape" where
  "torch_stack ts = (case ts of [] \<Rightarrow> Inl RuntimeError
     | t # _ \<Rightarrow> if same_shapes ts then Inr (length ts # t) else Inl RuntimeError)"

definition torch_cat :: "shape list \<Rightarrow> error + shape" where
  "torch_cat ts = (case ts of [] \<Rightarrow> Inl RuntimeError
     | t # _ \<Rightarrow> if same_trailing ts then Inr (sum_list (map hd ts) # tl t)
              else Inl RuntimeError)"

definition pad_sequence :: "shape list \<Rightarrow> error + shape" where
  "pad_sequence ts = (case ts of [] \<Rightarrow> Inl RuntimeError
     | t # _ \<Rightarrow> if same_trailing ts then Inr (length ts # fold max (map hd ts) 0 # tl t)
              else Inl RuntimeError)"

text \<open>A tensor handed to \<open>torch.stack\<close> or \<open>torch.cat\<close> is read as the list of its slices.\<close>

definition slices :: "shape \<Rightarrow> shape list" where
  "slices t = (case t of [] \<Rightarrow> [] | n # r \<Rightarrow> replicate n r)"

text \<open>\<open>t[:, None, :, :]\<close> on a 3-dimensional tensor.\<close>

definition unsqueeze1 :: "shape \<Rightarrow> error + shape" where
  "unsqueeze1 t = (case t of [a, b, c] \<Rightarrow> Inr [a, 1, b, c] | _ \<Rightarrow> Inl IndexError)"

text \<open>The \<open>einops.rearrange\<close> patterns of the file, each with the axis sizes it is given.\<close>

definition rearrange_cnp_ncp :: "nat \<Rightarrow> nat \<Rightarrow> shape \<Rightarrow> error + shape" where
  \<comment> \<open>\<open>"c n p -> n c p"\<close> with \<open>p\<close> and \<open>c\<close> given\<close>
  "rearrange_cnp_ncp c p t = (case t of
       [c', n, p'] \<Rightarrow> if c' = c \<and> p' = p then Inr [n, c, p] else Inl RuntimeError
     | _ \<Rightarrow> Inl RuntimeError)"

definition rearrange_bncp_bcpn :: "nat \<Rightarrow> nat \<Rightarrow> shape \<Rightarrow> error + shape" where
  \<comment> \<open>\<open>"b n c p -> b c p n"\<close> with \<open>p\<close> and \<open>c\<close> given\<close>
  "rearrange_bncp_bcpn c p t = (case t of
       [b, n, c', p'] \<Rightarrow> if c' = c \<and> p' = p then Inr [b, c, p, n] else Inl RuntimeError
     | _ \<Rightarrow> Inl RuntimeError)"

definition rearrange_bcnp_bcpn :: "nat \<Rightarrow> nat \<Rightarrow> shape \<Rightarrow> error + shape" where
  \<comment> \<open>\<open>"b c n p -> b c p n"\<close> with \<open>p\<close> and \<open>c\<close> given\<close>
  "rearrange_bcnp_bcpn c p t = (case t of
       [b, c', n, p'] \<Rightarrow> if c' = c \<and> p' = p then Inr [b, c, p, n] else Inl RuntimeError
     | _ \<Rightarrow> Inl RuntimeError)"

text \<open>
  One sample as the collator reads it: the tensor of its global crops and the tensor of its
  local crops. (The per-sample metadata of the free-shape mode is passed through untouched
  and left out.)
\<close>

record sample =
  global_crops :: shape
  local_crops :: shape

text \<open>\<open>[s[0][key][i] for i in range(n) for s in samples]\<close>\<close>

definition gather_crops :: "nat \<Rightarrow> shape list \<Rightarrow> error + shape list" where
  "gather_crops n ts = sequence_err (concat (map (\<lambda>i. map (\<lambda>t. tensor_index t i) ts) [0..<n]))"

record collate_args =
  mask_ratio_tuple :: "rat \<times> rat"
  mask_probability :: rat
  n_tokens :: "int option"
  do_free_shapes :: bool
  patch_size :: nat
  use_ch_patch_embed :: bool
  use_variable_channels :: bool

definition free_global :: "nat \<Rightarrow> shape list \<Rightarrow> error + (nat \<times> shape)" where
  \<comment> \<open>returns the channel count \<open>c\<close> of the first crop with the padded tensor\<close>
  "free_global ps crops = (case crops of [] \<Rightarrow> Inl IndexError
     | t0 # _ \<Rightarrow> (case t0 of [] \<Rightarrow> Inl IndexError
        | c # _ \<Rightarrow> (case sequence_err (map (rearrange_cnp_ncp c ps) crops) of Inl e \<Rightarrow> Inl e
           | Inr els \<Rightarrow> (case pad_sequence els of Inl e \<Rightarrow> Inl e
              | Inr padded \<Rightarrow> (case rearrange_bncp_bcpn c ps padded of Inl e \<Rightarrow> Inl e
                 | Inr t \<Rightarrow> Inr (c, t))))))"

definition free_local :: "nat \<Rightarrow> nat \<Rightarrow> shape list \<Rightarrow> error + shape" where
  "free_local c ps crops = (case pad_sequence crops of Inl e \<Rightarrow> Inl e
     | Inr padded \<Rightarrow> rearrange_bcnp_bcpn c ps padded)"

definition cat_channels :: "shape list \<Rightarrow> error + shape" where
  "cat_channels ts = (case torch_cat ts of Inl e \<Rightarrow> Inl e | Inr t \<Rightarrow> unsqueeze1 t)"

text \<open>
  \<open>collate_cpu\<close> returns the collated global and local crops. (Its four other results are
  metadata the mask computation never reads.)
\<close>

definition collate_cpu :: "sample list \<Rightarrow> bool \<Rightarrow> nat \<Rightarrow> bool \<Rightarrow> error + (shape \<times> shape)" where
  "collate_cpu samples free ps varch = (case samples of [] \<Rightarrow> Inl IndexError
     | s0 # _ \<Rightarrow> (case global_crops s0 of [] \<Rightarrow> Inl TypeError
       | n_global_crops # _ \<Rightarrow> (case local_crops s0 of [] \<Rightarrow> Inl TypeError
         | n_local_crops # _ \<Rightarrow> (case global_crops s0 of
             [n_gc, c, np, p] \<Rightarrow>
               (case gather_crops n_global_crops (map global_crops samples) of Inl e \<Rightarrow> Inl e
                | Inr gl \<Rightarrow> (case gather_crops n_local_crops (map local_crops samples) of
                    Inl e \<Rightarrow> Inl e
                  | Inr ll \<Rightarrow>
                    if free then
                      (case free_global ps gl of Inl e \<Rightarrow> Inl e
                       | Inr (c', gt) \<Rightarrow> (case free_local c' ps ll of Inl e \<Rightarrow> Inl e
                         | Inr lt \<Rightarrow>
                           if varch then
                             (case cat_channels (slices gt) of Inl e \<Rightarrow> Inl e
                              | Inr g \<Rightarrow> (case cat_channels (slices lt) of Inl e \<Rightarrow> Inl e
                                | Inr l \<Rightarrow> Inr (g, l)))
                           else
                             (case torch_stack (slices gt) of Inl e \<Rightarrow> Inl e
                              | Inr g \<Rightarrow> (case torch_stack (slices lt) of Inl e \<Rightarrow> Inl e
                                | Inr l \<Rightarrow> Inr (g, l)))))
                    else if varch then
                      (case cat_channels gl of Inl e \<Rightarrow> Inl e
                       | Inr g \<Rightarrow> (case cat_channels ll of Inl e \<Rightarrow> Inl e
                         | Inr l \<Rightarrow> Inr (g, l)))
                    else
                      (case torch_stack gl of Inl e \<Rightarrow> Inl e
                       | Inr g \<Rightarrow> (case torch_stack ll of Inl e \<Rightarrow> Inl e
                         | Inr l \<Rightarrow> Inr (g, l)))))
           | _ \<Rightarrow> Inl ValueError))))"


subsection \<open>Masks\<close>

text \<open>
  A mask is a two-dimensional boolean grid, given as the list of its rows. The random
  sources of the collator are explicit: \<open>'g\<close> is the state of the process-wide random
  generators, and every draw returns the new state.
  \<^item> \<open>uniform a b\<close> is \<open>random.uniform(a, b)\<close>;
  \<^item> \<open>torch_rand n\<close> is \<open>torch.rand(1, n)\<close>, the \<open>n\<close> values of its only row;
  \<^item> \<open>shuffle\<close> is \<open>random.shuffle\<close> on the list of masks;
  \<^item> the mask generator (an argument of the collator, \<open>None\<close> by default) takes the
    requested number of masked patches.
\<close>

type_synonym mask = "bool list list"

record 'g random_source =
  uniform :: "rat \<Rightarrow> rat \<Rightarrow> 'g \<Rightarrow> rat \<times> 'g"
  torch_rand :: "nat \<Rightarrow> 'g \<Rightarrow> rat list \<times> 'g"
  shuffle :: "mask list \<Rightarrow> 'g \<Rightarrow> mask list \<times> 'g"

type_synonym 'g mask_generator = "(int \<Rightarrow> 'g \<Rightarrow> mask \<times> 'g) option"

text \<open>
  \<open>torch.linspace(start, end, steps)\<close>: \<open>steps\<close> values from \<open>start\<close> to \<open>end\<close> at equal
  distances; a negative number of steps is refused.
\<close>

definition linspace :: "rat \<Rightarrow> rat \<Rightarrow> int \<Rightarrow> error + rat list" where
  "linspace lo hi steps =
     (if steps < 0 then Inl RuntimeError
      else if steps = 1 then Inr [lo]
      else Inr (map (\<lambda>i. lo + of_nat i * (hi - lo) / of_int (steps - 1)) [0..<nat steps]))"

text \<open>
  \<open>coll_global_crops[i].shape[-1] // patch_size\<close>: Python accepts a negative index down
  to \<open>-len\<close>.
\<close>

definition mask_width :: "shape \<Rightarrow> nat \<Rightarrow> int \<Rightarrow> error + nat" where
  "mask_width coll ps i = (case coll of [] \<Rightarrow> Inl IndexError
     | B # crop \<Rightarrow>
         if i < - int B \<or> int B \<le> i then Inl IndexError
         else if crop = [] then Inl IndexError
         else if ps = 0 then Inl ZeroDivisionError
         else Inr (last crop div ps))"

text \<open>The body of the first loop: the mask of sample \<open>i\<close>, drawn in its sub-interval.\<close>

definition draw_mask ::
  "'g random_source \<Rightarrow> 'g mask_generator \<Rightarrow> collate_args \<Rightarrow> shape \<Rightarrow> rat list \<Rightarrow> nat \<Rightarrow> 'g
     \<Rightarrow> error + (mask \<times> 'g)" where
  "draw_mask rs mask_generator a coll probs i g =
     (let prob_min = probs ! i; prob_max = probs ! (i + 1) in
      if do_free_shapes a then
        (case mask_width coll (patch_size a) (int i) of Inl e \<Rightarrow> Inl e
         | Inr w \<Rightarrow>
             (case torch_rand rs w g of (xs, g1) \<Rightarrow>
              (case uniform rs prob_min prob_max g1 of (u, g2) \<Rightarrow>
                 Inr ([map (\<lambda>x. x < u) xs], g2))))
      else
        (case uniform rs prob_min prob_max g of (u, g1) \<Rightarrow>
          (case n_tokens a of None \<Rightarrow> Inl TypeError
           | Some N \<Rightarrow>
              (case mask_generator of None \<Rightarrow> Inl TypeError
               | Some gen \<Rightarrow>
                  (case gen (py_int (of_int N * u)) g1 of (m, g2) \<Rightarrow> Inr (m, g2))))))"

text \<open>
  \<open>for i in range(0, n_samples_masked)\<close>, with the list of masks and the running
  \<open>upperbound\<close> as loop state.
\<close>

fun masked_loop ::
  "'g random_source \<Rightarrow> 'g mask_generator \<Rightarrow> collate_args \<Rightarrow> shape \<Rightarrow> rat list \<Rightarrow> nat list
     \<Rightarrow> mask list \<Rightarrow> int \<Rightarrow> 'g \<Rightarrow> error + (mask list \<times> int \<times> 'g)" where
  "masked_loop rs mg a coll probs [] masks_list upperbound g = Inr (masks_list, upperbound, g)"
| "masked_loop rs mg a coll probs (i # is) masks_list upperbound g =
     (case draw_mask rs mg a coll probs i g of Inl e \<Rightarrow> Inl e
      | Inr (m, g') \<Rightarrow>
          (case n_tokens a of None \<Rightarrow> Inl TypeError
           | Some N \<Rightarrow>
               masked_loop rs mg a coll probs is (masks_list @ [m])
                 (upperbound + py_int (of_int N * probs ! (i + 1))) g'))"

text \<open>\<open>for i in range(n_samples_masked, B)\<close>: the all-false masks.\<close>

fun unmasked_loop ::
  "'g mask_generator \<Rightarrow> collate_args \<Rightarrow> shape \<Rightarrow> int list \<Rightarrow> mask list \<Rightarrow> 'g
     \<Rightarrow> error + (mask list \<times> 'g)" where
  "unmasked_loop mg a coll [] masks_list g = Inr (masks_list, g)"
| "unmasked_loop mg a coll (i # is) masks_list g =
     (if do_free_shapes a then
        (case mask_width coll (patch_size a) i of Inl e \<Rightarrow> Inl e
         | Inr w \<Rightarrow> unmasked_loop mg a coll is (masks_list @ [[replicate w False]]) g)
      else
        (case mg of None \<Rightarrow> Inl TypeError
         | Some gen \<Rightarrow>
            (case gen 0 g of (m, g') \<Rightarrow> unmasked_loop mg a coll is (masks_list @ [m]) g')))"

text \<open>
  \<open>torch.stack(masks_list).flatten(1)\<close>: the masks must have one shape; each becomes the
  row of its cells in row-major order.
\<close>

definition stack_flatten :: "mask list \<Rightarrow> error + bool list list" where
  "stack_flatten masks_list = (case masks_list of [] \<Rightarrow> Inl RuntimeError
     | m # _ \<Rightarrow> if list_all (\<lambda>m'. map length m' = map length m) masks_list
              then Inr (map concat masks_list) else Inl RuntimeError)"

text \<open>\<open>collated_masks.tile((1, c))\<close>\<close>

definition tile_cols :: "nat \<Rightarrow> bool list list \<Rightarrow> bool list list" where
  "tile_cols c rows = map (\<lambda>r. concat (replicate c r)) rows"

text \<open>\<open>.flatten().nonzero().flatten()\<close>: the positions of the true entries, scanning upwards.\<close>

fun nonzero_from :: "nat \<Rightarrow> bool list \<Rightarrow> nat list" where
  "nonzero_from i [] = []"
| "nonzero_from i (b # bs) = (if b then i # nonzero_from (Suc i) bs else nonzero_from (Suc i) bs)"

definition nonzero :: "bool list \<Rightarrow> nat list" where
  "nonzero bs = nonzero_from 0 bs"

text \<open>
  \<open>collated_masks.sum(-1).clamp(min=1.0)\<close>: the number of true entries of each row, raised
  to 1 where it is smaller. These are the denominators of the weights.
\<close>

definition row_sums :: "bool list list \<Rightarrow> rat list" where
  "row_sums rows = map (\<lambda>r. of_nat (length (filter (\<lambda>b. b) r))) rows"

definition clamp_min :: "rat \<Rightarrow> rat list \<Rightarrow> rat list" where
  "clamp_min lo xs = map (\<lambda>x. if x < lo then lo else x) xs"

definition weight_denominators :: "bool list list \<Rightarrow> rat list" where
  "weight_denominators rows = clamp_min 1 (row_sums rows)"

text \<open>\<open>v.unsqueeze(-1).expand_as(rows)\<close>: the value of a row repeated along the row.\<close>

definition expand_as :: "rat list \<Rightarrow> bool list list \<Rightarrow> rat list list" where
  "expand_as v rows = map (\<lambda>(x, r). replicate (length r) x) (zip v rows)"

text \<open>\<open>t[rows]\<close>, indexing by a boolean tensor: the entries at the true positions, in row-major order.\<close>

definition bool_index :: "rat list list \<Rightarrow> bool list list \<Rightarrow> rat list" where
  "bool_index t rows = map fst (filter snd (zip (concat t) (concat rows)))"

definition compute_masks_weight :: "bool list list \<Rightarrow> rat list" where
  "compute_masks_weight rows =
     bool_index (expand_as (map (\<lambda>d. 1 / d) (weight_denominators rows)) rows) rows"


subsection \<open>\<open>collate_data_and_cast\<close>\<close>

text \<open>
  The collator accepts three kinds of input and tells them apart by type inspection: one
  dictionary of pre-batched tensors, a list of dictionaries, or a list of
  \<open>(crops, target)\<close> pairs (the CPU path, which calls \<open>collate_cpu\<close>).
\<close>

datatype samples = Batched sample | DictList "sample list" | TupleList "sample list"

record batch =
  collated_global_crops :: shape
  collated_local_crops :: shape
  collated_masks :: "bool list list"
  mask_indices_list :: "nat list"
  masks_weight :: "rat list"
  upperbound :: int
  n_masked_patches :: int

text \<open>The pre-batched input: five dimensions with free shapes, four without.\<close>

definition collate_batched :: "sample \<Rightarrow> error + (shape \<times> shape \<times> nat \<times> nat)" where
  \<comment> \<open>returns the collated crops, the channel count \<open>c\<close> and the batch size \<open>B\<close>\<close>
  "collate_batched s = (case global_crops s of
       [B, nc, c, h, w] \<Rightarrow>
         (case local_crops s of
            [B', nc', c', h', w'] \<Rightarrow>
              if B' = B \<and> c' = c then Inr ([B * nc, c, h, w], [B * nc', c, h', w'], c, nc * B)
              else Inl RuntimeError
          | _ \<Rightarrow> Inl RuntimeError)
     | [B, c, h, w] \<Rightarrow> Inr ([B, c, h, w], local_crops s, c, B)
     | _ \<Rightarrow> Inl ValueError)"

text \<open>The list of dictionaries (free shapes, crops cut on the accelerator).\<close>

definition rearrange_to_patches :: "nat \<Rightarrow> nat \<Rightarrow> shape \<Rightarrow> error + shape" where
  \<comment> \<open>\<open>"nc c (p1 h1) (p2 w1) -> (h1 w1 p1) nc c p2"\<close> with \<open>p1 = p2 = ps\<close> and \<open>c\<close> given\<close>
  "rearrange_to_patches c ps t = (case t of
       [nc, c', h, w] \<Rightarrow>
         if c' = c \<and> 0 < ps \<and> h mod ps = 0 \<and> w mod ps = 0
         then Inr [(h div ps) * (w div ps) * ps, nc, c, ps] else Inl RuntimeError
     | _ \<Rightarrow> Inl RuntimeError)"

definition rearrange_merge_crops :: "nat \<Rightarrow> shape \<Rightarrow> error + shape" where
  \<comment> \<open>\<open>"b np nc c p -> (b nc) c p np"\<close> with \<open>p\<close> given\<close>
  "rearrange_merge_crops ps t = (case t of
       [b, np, nc, c, p] \<Rightarrow> if p = ps then Inr [b * nc, c, p, np] else Inl RuntimeError
     | _ \<Rightarrow> Inl RuntimeError)"

definition rearrange_local :: "nat \<Rightarrow> shape \<Rightarrow> error + shape" where
  \<comment> \<open>\<open>"c np p -> np c p"\<close> with \<open>p\<close> given\<close>
  "rearrange_local ps t = (case t of
       [c, np, p] \<Rightarrow> if p = ps then Inr [np, c, p] else Inl RuntimeError
     | _ \<Rightarrow> Inl RuntimeError)"

definition rearrange_local_padded :: "nat \<Rightarrow> shape \<Rightarrow> error + shape" where
  \<comment> \<open>\<open>"b np c p -> b c p np"\<close> with \<open>p\<close> given\<close>
  "rearrange_local_padded ps t = (case t of
       [b, np, c, p] \<Rightarrow> if p = ps then Inr [b, c, p, np] else Inl RuntimeError
     | _ \<Rightarrow> Inl RuntimeError)"

definition collate_dict_list :: "nat \<Rightarrow> sample list \<Rightarrow> error + (shape \<times> shape \<times> nat \<times> nat)" where
  \<comment> \<open>returns the collated crops, \<open>c\<close> and \<open>B = coll_global_crops.size(0)\<close>\<close>
  "collate_dict_list ps ss = (case ss of [] \<Rightarrow> Inl IndexError
     | s0 # _ \<Rightarrow> (case global_crops s0 of
         [nc, c, h, w] \<Rightarrow>
           (case sequence_err (map (\<lambda>el. rearrange_to_patches c ps (global_crops el)) ss) of
              Inl e \<Rightarrow> Inl e
            | Inr gl \<Rightarrow> (case pad_sequence gl of Inl e \<Rightarrow> Inl e
              | Inr gp \<Rightarrow> (case rearrange_merge_crops ps gp of Inl e \<Rightarrow> Inl e
                | Inr g \<Rightarrow>
                   (case sequence_err (map (\<lambda>t. rearrange_local ps (local_crops t)) ss) of
                      Inl e \<Rightarrow> Inl e
                    | Inr ll \<Rightarrow> (case pad_sequence ll of Inl e \<Rightarrow> Inl e
                      | Inr lp \<Rightarrow> (case rearrange_local_padded ps lp of Inl e \<Rightarrow> Inl e
                        | Inr l \<Rightarrow> (case g of [] \<Rightarrow> Inl IndexError
                          | B # _ \<Rightarrow> Inr (g, l, c, B))))))))
       | _ \<Rightarrow> Inl ValueError))"

text \<open>
  From \<open>N = n_tokens\<close> to the shuffle: the list of masks, with the estimate \<open>upperbound\<close>.
  \<open>B\<close> is the first dimension of the collated global crops.
\<close>

definition make_masks_list ::
  "'g random_source \<Rightarrow> 'g mask_generator \<Rightarrow> collate_args \<Rightarrow> shape \<Rightarrow> nat \<Rightarrow> 'g
     \<Rightarrow> error + (mask list \<times> int \<times> 'g)" where
  "make_masks_list rs mg a coll B g =
     (let n_samples_masked = py_int (of_nat B * mask_probability a) in
      case linspace (fst (mask_ratio_tuple a)) (snd (mask_ratio_tuple a)) (n_samples_masked + 1) of
        Inl e \<Rightarrow> Inl e
      | Inr probs \<Rightarrow>
      (case masked_loop rs mg a coll probs [0..<nat n_samples_masked] [] 0 g of
         Inl e \<Rightarrow> Inl e
       | Inr (masks1, ub, g1) \<Rightarrow>
      (case unmasked_loop mg a coll [n_samples_masked..int B - 1] masks1 g1 of
         Inl e \<Rightarrow> Inl e
       | Inr (masks2, g2) \<Rightarrow>
          if do_free_shapes a then Inr (masks2, ub, g2)
          else (case shuffle rs masks2 g2 of (masks3, g3) \<Rightarrow> Inr (masks3, ub, g3)))))"

text \<open>
  From the stacking of the masks to the refreshed \<open>upperbound\<close>. \<open>c\<close> is the local
  variable of that name, which only the two dictionary branches assign.
\<close>

definition summarize_masks ::
  "collate_args \<Rightarrow> nat option \<Rightarrow> mask list \<Rightarrow> int
     \<Rightarrow> error + (bool list list \<times> nat list \<times> rat list \<times> int)" where
  "summarize_masks a c masks_list ub =
     (case stack_flatten masks_list of
        Inl e \<Rightarrow> Inl e
      | Inr rows \<Rightarrow>
      (case (if use_ch_patch_embed a
             then (case c of None \<Rightarrow> Inl UnboundLocalError | Some c' \<Rightarrow> Inr (tile_cols c' rows))
             else Inr rows) of
         Inl e \<Rightarrow> Inl e
       | Inr collated \<Rightarrow>
          (let indices = nonzero (concat collated);
               weight = compute_masks_weight collated;
               ub' = (if int (length indices) > ub then int (length indices) else ub)
           in Inr (collated, indices, weight, ub'))))"

definition collate_masks ::
  "'g random_source \<Rightarrow> 'g mask_generator \<Rightarrow> collate_args \<Rightarrow> shape \<Rightarrow> nat \<Rightarrow> nat option \<Rightarrow> 'g
     \<Rightarrow> error + (bool list list \<times> nat list \<times> rat list \<times> int \<times> 'g)" where
  "collate_masks rs mg a coll B c g =
     (case make_masks_list rs mg a coll B g of
        Inl e \<Rightarrow> Inl e
      | Inr (masks_list, ub, g') \<Rightarrow>
          (case summarize_masks a c masks_list ub of
             Inl e \<Rightarrow> Inl e
           | Inr (collated, indices, weight, ub') \<Rightarrow> Inr (collated, indices, weight, ub', g')))"

text \<open>
  The returned dictionary reads \<open>num_ch_list\<close>, which only the CPU branch assigns (and, in
  the branch of the list of dictionaries, three more variables that are not assigned
  there): on the two dictionary branches the \<open>return\<close> statement raises.
\<close>

definition collate_data_and_cast ::
  "'g random_source \<Rightarrow> 'g mask_generator \<Rightarrow> collate_args \<Rightarrow> samples \<Rightarrow> 'g \<Rightarrow> error + (batch \<times> 'g)" where
  "collate_data_and_cast rs mg a samples g = (case samples of
       Batched s \<Rightarrow>
         (case collate_batched s of Inl e \<Rightarrow> Inl e
          | Inr (cg, cl, c, B) \<Rightarrow>
             (case collate_masks rs mg a cg B (Some c) g of Inl e \<Rightarrow> Inl e
              | Inr r \<Rightarrow> Inl UnboundLocalError))
     | DictList ss \<Rightarrow>
         (case collate_dict_list (patch_size a) ss of Inl e \<Rightarrow> Inl e
          | Inr (cg, cl, c, B) \<Rightarrow>
             (case collate_masks rs mg a cg B (Some c) g of Inl e \<Rightarrow> Inl e
              | Inr r \<Rightarrow> Inl UnboundLocalError))
     | TupleList ss \<Rightarrow>
         (case collate_cpu ss (do_free_shapes a) (patch_size a) (use_variable_channels a) of
            Inl e \<Rightarrow> Inl e
          | Inr (cg, cl) \<Rightarrow>
             (case cg of [] \<Rightarrow> Inl TypeError
              | B # _ \<Rightarrow>
                 (case collate_masks rs mg a cg B None g of Inl e \<Rightarrow> Inl e
                  | Inr (collated, indices, weight, ub, g') \<Rightarrow>
                      Inr (\<lparr>collated_global_crops = cg, collated_local_crops = cl,
                            collated_masks = collated, mask_indices_list = indices,
                            masks_weight = weight, upperbound = ub,
                            n_masked_patches = int (length indices)\<rparr>, g')))))"


subsection \<open>Notions the statements about the collator use\<close>

text \<open>\<open>len(coll_global_crops)\<close>, the \<open>B\<close> of the collator, read off the returned crops.\<close>

definition batch_size :: "batch \<Rightarrow> nat" where
  "batch_size out = (case collated_global_crops out of [] \<Rightarrow> 0 | B # _ \<Rightarrow> B)"





definition row_length :: "bool list list \<Rightarrow> nat" where
  "row_length rows = (case rows of [] \<Rightarrow> 0 | r # _ \<Rightarrow> length r)"

definition rectangular :: "bool list list \<Rightarrow> bool" where
  "rectangular rows = (\<forall>r \<in> set rows. length r = row_length rows)"




text \<open>
  The estimate of the masked-patch count, in the words of the specification: sample \<open>i\<close>
  of the \<open>k\<close> masked samples draws its ratio in the \<open>i\<close>-th of \<open>k\<close> sub-intervals of equal
  width of the ratio range, and is expected to mask at most \<open>N\<close> times the upper end of its
  sub-interval, as a whole number of patches.
\<close>

definition sub_interval_upper :: "rat \<times> rat \<Rightarrow> int \<Rightarrow> nat \<Rightarrow> rat" where
  "sub_interval_upper r k i = fst r + of_nat (i + 1) * (snd r - fst r) / of_int k"

definition expected_max_masked :: "collate_args \<Rightarrow> nat \<Rightarrow> int" where
  "expected_max_masked a B =
     (let k = py_int (of_nat B * mask_probability a)
      in sum_list (map (\<lambda>i. case n_tokens a of None \<Rightarrow> 0
                         | Some N \<Rightarrow> py_int (of_int N * sub_interval_upper (mask_ratio_tuple a) k i))
                    [0..<nat k]))"

subsection \<open>A batch of four samples\<close>

text \<open>
  Four samples of two global crops and eight local crops each, masks over a grid of
  \<open>4 \<times> 4\<close> patches, mask ratios in \<open>[0.1, 0.5]\<close> and mask probability \<open>0.5\<close>. The
  random state counts the draws; \<open>uniform\<close> answers with the lower end of its interval,
  the shuffle reverses the list, and the generator masks the first \<open>n\<close> cells of the grid.
\<close>

definition example_source :: "nat random_source" where
  "example_source = \<lparr>uniform = (\<lambda>x y g. (x, Suc g)),
                      torch_rand = (\<lambda>n g. (replicate n 0, Suc g)),
                      shuffle = (\<lambda>ms g. (rev ms, Suc g))\<rparr>"

definition first_cells :: "int \<Rightarrow> nat \<Rightarrow> mask \<times> nat" where
  "first_cells n g = (map (\<lambda>r. map (\<lambda>c. int (4 * r + c) < n) [0..<4]) [0..<4], Suc g)"

definition example_generator :: "nat mask_generator" where
  "example_generator = Some first_cells"

definition example_args :: collate_args where
  "example_args = \<lparr>mask_ratio_tuple = (1 / 10, 1 / 2), mask_probability = 1 / 2,
                    n_tokens = Some 16, do_free_shapes = False, patch_size = 14,
                    use_ch_patch_embed = False, use_variable_channels = False\<rparr>"

definition example_sample :: sample where
  "example_sample = \<lparr>global_crops = [2, 3, 16, 196], local_crops = [8, 3, 4, 196]\<rparr>"

definition example_samples :: samples where
  "example_samples = TupleList [example_sample, example_sample, example_sample, example_sample]"

definition example_batch :: batch where
  "example_batch =
     \<lparr>collated_global_crops = [8, 3, 16, 196], collated_local_crops = [32, 3, 4, 196],
      collated_masks =
        replicate 4 (replicate 16 False) @
        [replicate 6 True @ replicate 10 False, replicate 4 True @ replicate 12 False,
         replicate 3 True @ replicate 13 False, True # replicate 15 False],
      mask_indices_list = [64, 65, 66, 67, 68, 69, 80, 81, 82, 83, 96, 97, 98, 112],
      masks_weight = replicate 6 (1 / 6) @ replicate 4 (1 / 4) @ replicate 3 (1 / 3) @ [1],
      upperbound = 21, n_masked_patches = 14\<rparr>"



section \<open>dinov2/train/ssl_meta_arch.py\<close>

subsection \<open>Construction\<close>

text \<open>
  The configuration, as far as \<open>SSLMetaArch\<close> reads it. The networks, heads and loss
  modules are built by code outside this file (\<open>build_model_from_cfg\<close>, \<open>DINOHead\<close>,
  \<open>DINOLoss\<close>, \<open>iBOTPatchLoss\<close>, \<open>KoLeoLoss\<close>); their construction is taken to succeed,
  and the architecture is modelled by the settings and the attributes the constructor
  leaves behind.
\<close>

record cfg =
  dino_loss_weight :: rat
  dino_koleo_loss_weight :: rat
  ibot_loss_weight :: rat
  ibot_separate_head :: bool
  ibot_mask_ratio_min_max :: "rat \<times> rat"
  ibot_mask_sample_probability :: rat
  train_centering :: string
  crops_local_crops_number :: nat
  crops_free_shapes :: bool

record ssl_meta_arch =
  arch_cfg :: cfg
  do_dino :: bool
  do_koleo :: bool
  do_ibot :: bool
  student_keys :: "string list"


subsection \<open>The loss of the class tokens\<close>

text \<open>
  Modelled from the spec: \<open>DINOLoss\<close> (\<open>dinov2/loss\<close>), which \<open>forward_backward\<close> calls
  as \<open>self.dino_loss\<close>, is not among the sources. The specification describes its value as
  the cross-entropy of a student output against a teacher pseudo-target, summed over the
  pairs it is given. Both arguments are batches, one row per image; the cross-entropy of a
  batch is taken as the mean over its rows of the cross-entropy \<open>H\<close> of a student row
  against a teacher row, and \<open>H\<close> (a log-softmax at the student temperature, against the
  teacher's distribution) stays a parameter.
\<close>

definition batch_cross_entropy :: "('s \<Rightarrow> 't \<Rightarrow> real) \<Rightarrow> 's list \<Rightarrow> 't list \<Rightarrow> real" where
  "batch_cross_entropy H s t = sum_list (map (\<lambda>(x, y). H x y) (zip s t)) / of_nat (length s)"

definition dino_loss :: "('s \<Rightarrow> 't \<Rightarrow> real) \<Rightarrow> 's list list \<Rightarrow> 't list list \<Rightarrow> real" where
  "dino_loss H student_output_list teacher_out_softmaxed_centered_list =
     sum_list (map (\<lambda>s. sum_list (map (\<lambda>t. batch_cross_entropy H s t)
                                     teacher_out_softmaxed_centered_list))
                 student_output_list)"

subsection \<open>\<open>forward_backward\<close>\<close>

text \<open>
  The centering of the teacher output is chosen inside \<open>get_teacher_output\<close>, by comparing
  \<open>cfg.train.centering\<close> with the two names the code knows.
\<close>

datatype centering_mode = Centering | SinkhornKnopp

definition select_centering :: "string \<Rightarrow> error + centering_mode" where
  "select_centering name =
     (if name = ''centering'' then Inr Centering
      else if name = ''sinkhorn_knopp'' then Inr SinkhornKnopp
      else Inl NotImplementedError)"

text \<open>
  What the networks hand to the loss computation of one step: the teacher's pseudo-targets
  of the class tokens, one batch per global crop
  (\<open>teacher_dino_softmaxed_centered_list\<close>, already in swapped order), the student's class
  tokens of the local crops, one batch per local crop, the student's class tokens of the
  global crops, all crops in one batch, and the values of the two losses that other modules
  compute (\<open>sum(self.koleo_loss(p) ...)\<close> and \<open>self.ibot_patch_loss.forward_masked(...)\<close>).
\<close>

record ('s, 't) step_outputs =
  teacher_dino_softmaxed_centered_list :: "'t list list"
  student_local_cls_tokens_after_head :: "'s list list"
  student_global_cls_tokens_after_head :: "'s list"
  koleo_sum :: real
  ibot_forward_masked :: real

definition n_local_crops_loss_terms :: "nat \<Rightarrow> nat \<Rightarrow> nat" where
  "n_local_crops_loss_terms n_local_crops n_global_crops = max (n_local_crops * n_global_crops) 1"

definition n_global_crops_loss_terms :: "nat \<Rightarrow> nat" where
  "n_global_crops_loss_terms n_global_crops = (n_global_crops - 1) * n_global_crops"

definition dino_global_crops_loss ::
  "('s \<Rightarrow> 't \<Rightarrow> real) \<Rightarrow> nat \<Rightarrow> ('s, 't) step_outputs \<Rightarrow> real" where
  "dino_global_crops_loss H n_local_crops out =
     (let n_global_crops = 2;
          loss_scales = 2
      in dino_loss H [student_global_cls_tokens_after_head out]
                     [concat (teacher_dino_softmaxed_centered_list out)]
           * loss_scales
           / of_nat (n_global_crops_loss_terms n_global_crops
                     + n_local_crops_loss_terms n_local_crops n_global_crops))"

definition dino_local_crops_loss ::
  "('s \<Rightarrow> 't \<Rightarrow> real) \<Rightarrow> nat \<Rightarrow> ('s, 't) step_outputs \<Rightarrow> real" where
  "dino_local_crops_loss H n_local_crops out =
     (let n_global_crops = 2
      in dino_loss H (student_local_cls_tokens_after_head out)
                     (teacher_dino_softmaxed_centered_list out)
           / of_nat (n_global_crops_loss_terms n_global_crops
                     + n_local_crops_loss_terms n_local_crops n_global_crops))"

text \<open>
  \<open>forward_backward\<close> returns the dictionary of the losses, in the order of insertion.
  The teacher output comes first: without the DINO loss the teacher has no \<open>dino_head\<close>
  to apply, and the centering is selected after the head. The attributes \<open>dino_loss\<close> and
  \<open>dino_loss_weight\<close> exist only with the DINO loss.
\<close>

definition forward_backward ::
  "ssl_meta_arch \<Rightarrow> ('s \<Rightarrow> 't \<Rightarrow> real) \<Rightarrow> ('s, 't) step_outputs \<Rightarrow> error + (string \<times> real) list" where
  "forward_backward arch H out =
     (if \<not> do_dino arch then Inl AttributeError
      else case select_centering (train_centering (arch_cfg arch)) of
        Inl e \<Rightarrow> Inl e
      | Inr mode \<Rightarrow>
         (let n_local_crops = crops_local_crops_number (arch_cfg arch);
              loss_scales = 2;
              ibot_loss_scale = 1 / 2;
              local_part =
                (if n_local_crops > 0
                 then [(''dino_local_crops_loss'', dino_local_crops_loss H n_local_crops out)]
                 else []);
              global_part =
                (if do_dino arch
                 then [(''dino_global_crops_loss'', dino_global_crops_loss H n_local_crops out)]
                      @ (if do_koleo arch
                         then [(''koleo_loss'',
                                real_of_rat (dino_koleo_loss_weight (arch_cfg arch)) * koleo_sum out
                                  / loss_scales)]
                         else [])
                 else []);
              ibot_part =
                (if do_ibot arch
                 then [(''ibot_loss'', ibot_forward_masked out * loss_scales * ibot_loss_scale / 2)]
                 else [])
          in Inr (local_part @ global_part @ ibot_part)))"

subsection \<open>Packing the inputs of the student head\<close>

text \<open>
  Modelled from the spec: \<open>fmha.BlockDiagonalMask\<close> (xFormers) is not among the sources.
  The specification's token packer concatenates the groups along one axis, keeping the
  block boundaries, and splits a tensor of the packed length back at the same boundaries,
  in the order the groups were packed; a tensor of another length is refused. A group is
  the list of its tokens; \<open>seqstart\<close> lists the boundaries, from 0 to the packed length.
\<close>

fun seqstart_from :: "nat \<Rightarrow> nat list \<Rightarrow> nat list" where
  "seqstart_from s [] = [s]"
| "seqstart_from s (l # ls) = s # seqstart_from (s + l) ls"

record block_diagonal_mask =
  seqstart :: "nat list"

definition from_tensor_list :: "'a list list \<Rightarrow> block_diagonal_mask \<times> 'a list" where
  "from_tensor_list tensors =
     (\<lparr>seqstart = seqstart_from 0 (map length tensors)\<rparr>, concat tensors)"

fun split_at :: "nat list \<Rightarrow> 'a list \<Rightarrow> 'a list list" where
  "split_at (a # b # bs) x = take (b - a) (drop a x) # split_at (b # bs) x"
| "split_at bs x = []"

definition split_blocks :: "block_diagonal_mask \<Rightarrow> 'a list \<Rightarrow> error + 'a list list" where
  "split_blocks bias x =
     (if seqstart bias = [] \<or> last (seqstart bias) \<noteq> length x then Inl AssertionError
      else Inr (split_at (seqstart bias) x))"

text \<open>
  Step 2 of \<open>forward_backward\<close>: pack the inputs of the student head, apply the head once
  to the packed tensor, split its output.
\<close>

definition run_student_head :: "('a list \<Rightarrow> 'b list) \<Rightarrow> 'a list list \<Rightarrow> error + 'b list list" where
  "run_student_head head inputs_for_student_head_list =
     (case from_tensor_list inputs_for_student_head_list of
        (attn_bias, cat_inputs) \<Rightarrow> split_blocks attn_bias (head cat_inputs))"

subsection \<open>\<open>update_teacher\<close>\<close>










subsection \<open>A configuration, an architecture and the outputs of one step\<close>

text \<open>
  The row cross-entropy of the example is the product of two numbers: any function will do
  for an instance of the arithmetic.
\<close>

definition example_cfg :: cfg where
  "example_cfg = \<lparr>dino_loss_weight = 1, dino_koleo_loss_weight = 1 / 10, ibot_loss_weight = 1,
                   ibot_separate_head = False, ibot_mask_ratio_min_max = (1 / 10, 1 / 2),
                   ibot_mask_sample_probability = 1 / 2, train_centering = ''centering'',
                   crops_local_crops_number = 8, crops_free_shapes = False\<rparr>"


definition example_arch :: ssl_meta_arch where
  "example_arch = \<lparr>arch_cfg = example_cfg, do_dino = True, do_koleo = True, do_ibot = True,
                    student_keys = [''backbone'', ''dino_head'']\<rparr>"

definition example_outputs :: "(real, real) step_outputs" where
  "example_outputs = \<lparr>teacher_dino_softmaxed_centered_list = [[1, 2], [3, 4]],
                       student_local_cls_tokens_after_head = [[1, 1], [2, 2]],
                       student_global_cls_tokens_after_head = [1, 3, 5, 7],
                       koleo_sum = 4, ibot_forward_masked = 6\<rparr>"




section \<open>dinov2/train/train.py\<close>











section \<open>Properties of the collator\<close>

subsection \<open>Auxiliary facts\<close>

lemma nonzero_from_length: "length (nonzero_from i bs) = length (filter (\<lambda>b. b) bs)"
  by (induction bs arbitrary: i) simp_all


lemma nonzero_from_shift: "nonzero_from i bs = map (\<lambda>j. i + j) (nonzero_from 0 bs)"
proof (induction bs arbitrary: i)
  case Nil
  show ?case by simp
next
  case (Cons b bs)
  have a: "nonzero_from (Suc i) bs = map (\<lambda>j. i + j) (nonzero_from (Suc 0) bs)"
    using Cons.IH [of "Suc i"] Cons.IH [of "Suc 0"] by (simp add: comp_def)
  show ?case using a by simp
qed

lemma nonzero_from_eq:
  "nonzero_from 0 bs = filter (\<lambda>j. bs ! j) [0..<length bs]"
proof (induction bs)
  case Nil
  show ?case by simp
next
  case (Cons b bs)
  have u: "[0..<length (b # bs)] = 0 # map Suc [0..<length bs]"
    by (simp add: upt_conv_Cons map_Suc_upt del: upt_Suc)
  have s: "nonzero_from (Suc 0) bs = map Suc (filter (\<lambda>j. bs ! j) [0..<length bs])"
    using nonzero_from_shift [of "Suc 0" bs] Cons.IH by simp
  show ?case unfolding u using s by (simp add: filter_map comp_def)
qed


lemma nonzero_sorted: "sorted_wrt (<) (nonzero bs)"
  unfolding nonzero_def nonzero_from_eq by (simp add: sorted_wrt_filter)

lemma nonzero_set: "set (nonzero bs) = {j. j < length bs \<and> bs ! j}"
  unfolding nonzero_def nonzero_from_eq by auto











lemma stack_flatten_rows:
  assumes "stack_flatten ms = Inr rows"
  shows "rows = map concat ms" and "rectangular rows"
proof -
  obtain m ms' where ms: "ms = m # ms'"
    using assms by (cases ms) (simp_all add: stack_flatten_def)
  have all: "list_all (\<lambda>m'. map length m' = map length m) ms" and r: "rows = map concat ms"
    using assms unfolding ms stack_flatten_def by (simp_all split: if_splits)
  show "rows = map concat ms" by (rule r)
  have eq: "length (concat m') = length (concat m)" if "m' \<in> set ms" for m'
  proof -
    have "map length m' = map length m" using all that by (simp add: list_all_iff)
    then show ?thesis by (simp add: length_concat)
  qed
  have rl: "row_length rows = length (concat m)"
    unfolding r ms row_length_def by simp
  show "rectangular rows"
    unfolding rectangular_def rl
  proof
    fix x assume "x \<in> set rows"
    then obtain m' where "m' \<in> set ms" and "x = concat m'" unfolding r by auto
    then show "length x = length (concat m)" using eq by blast
  qed
qed

lemma tile_cols_rectangular: "rectangular rows \<Longrightarrow> rectangular (tile_cols c rows)"
proof -
  assume a: "rectangular rows"
  have l: "length (concat (replicate c r)) = c * length r" for r :: "bool list"
    by (induction c) simp_all
  show ?thesis
    using a unfolding rectangular_def tile_cols_def row_length_def
    by (cases rows) (simp_all add: l)
qed

lemma masked_loop_result:
  assumes "masked_loop rs mg a coll probs is masks ub g = Inr (masks', ub', g')"
  shows "ub' = ub + sum_list (map (\<lambda>i. case n_tokens a of None \<Rightarrow> 0
                         | Some N \<Rightarrow> py_int (of_int N * probs ! (i + 1))) is)"
  using assms
proof (induction "is" arbitrary: masks ub g)
  case Nil
  then show ?case by simp
next
  case (Cons i "is")
  from Cons.prems obtain m g1 N where
      N: "n_tokens a = Some N" and
      rest: "masked_loop rs mg a coll probs is (masks @ [m])
               (ub + py_int (of_int N * probs ! (i + 1))) g1 = Inr (masks', ub', g')"
    by (auto split: sum.splits option.splits prod.splits)
  show ?case using Cons.IH [OF rest] N by simp
qed

lemma linspace_nth:
  assumes "linspace lo hi (k + 1) = Inr probs" and "0 < k" and "i \<le> nat k"
  shows "probs ! i = lo + of_nat i * (hi - lo) / of_int k"
proof -
  have "probs = map (\<lambda>i. lo + of_nat i * (hi - lo) / of_int k) [0..<nat (k + 1)]"
    using assms(1,2) by (auto simp: linspace_def split: if_splits)
  moreover have "i < nat (k + 1)" using assms(2,3) by linarith
  ultimately show ?thesis by simp
qed

lemma make_masks_list_ub:
  assumes "make_masks_list rs mg a coll B g = Inr (ml, ub, g')"
  shows "ub = expected_max_masked a B"
proof -
  let ?k = "py_int (of_nat B * mask_probability a)"
  obtain probs where
    lin: "linspace (fst (mask_ratio_tuple a)) (snd (mask_ratio_tuple a)) (?k + 1) = Inr probs"
    using assms unfolding make_masks_list_def Let_def
    by (cases "linspace (fst (mask_ratio_tuple a)) (snd (mask_ratio_tuple a)) (?k + 1)") simp_all
  obtain masks1 ub1 g1 where
    l1: "masked_loop rs mg a coll probs [0..<nat ?k] [] 0 g = Inr (masks1, ub1, g1)"
    using assms unfolding make_masks_list_def Let_def lin
    by (cases "masked_loop rs mg a coll probs [0..<nat ?k] [] 0 g") auto
  have u: "ub = ub1"
    using assms unfolding make_masks_list_def Let_def lin
    by (simp add: l1 split: sum.splits prod.splits if_splits)
  have e: "(case n_tokens a of None \<Rightarrow> 0 | Some N \<Rightarrow> py_int (of_int N * probs ! (i + 1)))
         = (case n_tokens a of None \<Rightarrow> 0
            | Some N \<Rightarrow> py_int (of_int N * sub_interval_upper (mask_ratio_tuple a) ?k i))"
    if "i \<in> set [0..<nat ?k]" for i
  proof -
    have "0 < ?k" and "i + 1 \<le> nat ?k" using that by auto
    then have "probs ! (i + 1) = sub_interval_upper (mask_ratio_tuple a) ?k i"
      using linspace_nth [OF lin] by (simp add: sub_interval_upper_def)
    then show ?thesis by (cases "n_tokens a") simp_all
  qed
  have m: "map (\<lambda>i. case n_tokens a of None \<Rightarrow> 0
                 | Some N \<Rightarrow> py_int (of_int N * probs ! (i + 1))) [0..<nat ?k]
         = map (\<lambda>i. case n_tokens a of None \<Rightarrow> 0
                 | Some N \<Rightarrow> py_int (of_int N * sub_interval_upper (mask_ratio_tuple a) ?k i))
             [0..<nat ?k]"
    by (rule map_cong [OF refl]) (rule e)
  have "ub1 = expected_max_masked a B"
    using masked_loop_result [OF l1]
    unfolding expected_max_masked_def Let_def m by simp
  then show ?thesis using u by simp
qed

lemma summarize_masks_result:
  assumes "summarize_masks a c ml ub0 = Inr (rows, idx, w, ub)"
  shows "idx = nonzero (concat rows)" and "w = compute_masks_weight rows"
    and "rectangular rows"
    and "ub = max ub0 (int (length idx))"
proof -
  obtain rows0 where st: "stack_flatten ml = Inr rows0"
    using assms unfolding summarize_masks_def by (cases "stack_flatten ml") simp_all
  have r0: "rectangular rows0" by (rule stack_flatten_rows(2) [OF st])
  have ti: "rows = rows0 \<or> (\<exists>c'. rows = tile_cols c' rows0)"
    and i: "idx = nonzero (concat rows)"
    and w': "w = compute_masks_weight rows"
    and u: "ub = (if int (length idx) > ub0 then int (length idx) else ub0)"
    using assms unfolding summarize_masks_def st Let_def
    by (auto split: if_splits option.splits)
  show "idx = nonzero (concat rows)" by (rule i)
  show "w = compute_masks_weight rows" by (rule w')
  show "rectangular rows" using ti r0 tile_cols_rectangular by auto
  show "ub = max ub0 (int (length idx))" using u by (simp add: max_def)
qed

lemma collate_masks_result:
  assumes "collate_masks rs mg a coll B c g = Inr (rows, idx, w, ub, g')"
  shows "idx = nonzero (concat rows)" and "w = compute_masks_weight rows"
    and "rectangular rows"
    and "ub = max (expected_max_masked a B) (int (length idx))"
proof -
  obtain ml ub0 where mk: "make_masks_list rs mg a coll B g = Inr (ml, ub0, g')"
    and su: "summarize_masks a c ml ub0 = Inr (rows, idx, w, ub)"
    using assms unfolding collate_masks_def
    by (auto split: sum.splits prod.splits)
  show "idx = nonzero (concat rows)" by (rule summarize_masks_result(1) [OF su])
  show "w = compute_masks_weight rows" by (rule summarize_masks_result(2) [OF su])
  show "rectangular rows" by (rule summarize_masks_result(3) [OF su])
  show "ub = max (expected_max_masked a B) (int (length idx))"
    using summarize_masks_result(4) [OF su] make_masks_list_ub [OF mk] by simp
qed

lemma collate_returns:
  assumes "collate_data_and_cast rs mg a samples g = Inr (out, g')"
  obtains ss where "samples = TupleList ss"
    and "collate_masks rs mg a (collated_global_crops out) (batch_size out) None g
           = Inr (collated_masks out, mask_indices_list out, masks_weight out, upperbound out, g')"
    and "n_masked_patches out = int (length (mask_indices_list out))"
    and "collate_cpu ss (do_free_shapes a) (patch_size a) (use_variable_channels a)
           = Inr (collated_global_crops out, collated_local_crops out)"
  using assms unfolding collate_data_and_cast_def batch_size_def
  by (auto split: samples.splits sum.splits prod.splits list.splits)


lemma nonzero_eq: "nonzero bs = filter (\<lambda>j. bs ! j) [0..<length bs]"
  by (simp add: nonzero_def nonzero_from_eq)

lemma nonzero_length: "length (nonzero bs) = length (filter (\<lambda>b. b) bs)"
  by (simp add: nonzero_def nonzero_from_length)



subsection \<open>The masked positions (claim C9)\<close>

text \<open>
  Claim C9. For every collated batch, the returned list of masked indices consists exactly
  of the flat positions at which the flattened collated mask tensor is true, in ascending
  order, and the returned count of masked patches is the number of true entries of the
  collated mask tensor.
\<close>

theorem mask_indices_list_nonzero_positions:
  assumes "collate_data_and_cast rs mg a samples g = Inr (out, g')"
  shows "mask_indices_list out
           = filter (\<lambda>p. concat (collated_masks out) ! p) [0..<length (concat (collated_masks out))]
       \<and> sorted_wrt (<) (mask_indices_list out)
       \<and> n_masked_patches out = int (length (filter (\<lambda>b. b) (concat (collated_masks out))))"
proof -
  obtain ss where
    cm: "collate_masks rs mg a (collated_global_crops out) (batch_size out) None g
           = Inr (collated_masks out, mask_indices_list out, masks_weight out, upperbound out, g')"
    and n: "n_masked_patches out = int (length (mask_indices_list out))"
    using collate_returns [OF assms] by blast
  have i: "mask_indices_list out = nonzero (concat (collated_masks out))"
    by (rule collate_masks_result(1) [OF cm])
  have e: "mask_indices_list out
           = filter (\<lambda>p. concat (collated_masks out) ! p) [0..<length (concat (collated_masks out))]"
    unfolding i by (rule nonzero_eq)
  have s: "sorted_wrt (<) (mask_indices_list out)"
    unfolding i by (rule nonzero_sorted)
  have c: "n_masked_patches out = int (length (filter (\<lambda>b. b) (concat (collated_masks out))))"
    unfolding n i by (simp add: nonzero_length)
  show ?thesis using e s c by blast
qed

theorem mask_indices_list_nonzero_positions_witness:
  "collate_data_and_cast example_source example_generator example_args example_samples 0
     = Inr (example_batch, 13)
   \<and> mask_indices_list example_batch
       = filter (\<lambda>p. concat (collated_masks example_batch) ! p)
           [0..<length (concat (collated_masks example_batch))]
   \<and> sorted_wrt (<) (mask_indices_list example_batch)
   \<and> n_masked_patches example_batch
       = int (length (filter (\<lambda>b. b) (concat (collated_masks example_batch))))"
proof -
  have r: "collate_data_and_cast example_source example_generator example_args example_samples 0
     = Inr (example_batch, 13)" by code_simp
  show ?thesis using r mask_indices_list_nonzero_positions [OF r] by blast
qed

subsection \<open>The upper bound (claim C4)\<close>



subsection \<open>No division by zero (claim C10)\<close>



subsection \<open>The weights of one sample (claim C5)\<close>



subsection \<open>The number of masked rows (claim C1)\<close>




















section \<open>Properties of the training architecture\<close>

subsection \<open>Packing and splitting (claim C8)\<close>

lemma seqstart_from_Cons: "seqstart_from s ls = s # tl (seqstart_from s ls)"
  by (cases ls) simp_all

lemma seqstart_from_last: "last (seqstart_from s ls) = s + sum_list ls"
proof (induction ls arbitrary: s)
  case Nil
  show ?case by simp
next
  case (Cons l ls)
  have "seqstart_from (s + l) ls \<noteq> []" by (cases ls) simp_all
  then show ?case using Cons.IH [of "s + l"] by (simp add: add.assoc)
qed

lemma split_at_seqstart:
  "split_at (seqstart_from (length pre) (map length xs)) (pre @ concat xs @ post) = xs"
proof (induction xs arbitrary: pre)
  case Nil
  show ?case by simp
next
  case (Cons x xs)
  obtain rest where r: "seqstart_from (length pre + length x) (map length xs)
                          = (length pre + length x) # rest"
    using seqstart_from_Cons by blast
  have ih: "split_at (seqstart_from (length pre + length x) (map length xs))
              (pre @ x @ concat xs @ post) = xs"
    using Cons.IH [of "pre @ x"] by simp
  show ?case using ih by (simp add: r)
qed

lemma split_at_map: "split_at bs (map f x) = map (map f) (split_at bs x)"
  by (induction bs x rule: split_at.induct) (simp_all add: take_map drop_map)

text \<open>
  Claim C8. For every list of token groups of any lengths, a group of length zero included,
  packing the groups into one block-diagonal batch and splitting the result at once at the
  same block boundaries returns the groups themselves, in the same order. The same holds
  through the head: a head that maps each token by itself gives each group its own
  outputs.
\<close>

theorem pack_split_round_trip:
  "split_blocks (fst (from_tensor_list xs)) (snd (from_tensor_list xs)) = Inr xs
   \<and> run_student_head (\<lambda>x. x) xs = Inr xs
   \<and> run_student_head (map f) xs = Inr (map (map f) xs)"
proof -
  have ne: "seqstart_from 0 (map length xs) \<noteq> []" by (cases xs) simp_all
  have la: "last (seqstart_from 0 (map length xs)) = length (concat xs)"
    by (simp add: seqstart_from_last length_concat)
  have sp: "split_at (seqstart_from 0 (map length xs)) (concat xs) = xs"
    using split_at_seqstart [of "[]" xs "[]"] by simp
  have a: "split_blocks (fst (from_tensor_list xs)) (snd (from_tensor_list xs)) = Inr xs"
    using ne la sp by (simp add: split_blocks_def from_tensor_list_def)
  have b: "run_student_head (\<lambda>x. x) xs = Inr xs"
    using ne la sp by (simp add: run_student_head_def split_blocks_def from_tensor_list_def)
  have c: "run_student_head (map f) xs = Inr (map (map f) xs)"
    using ne la sp
    by (simp add: run_student_head_def split_blocks_def from_tensor_list_def split_at_map)
  show ?thesis using a b c by blast
qed

subsection \<open>The update of the teacher (claim C6)\<close>




subsection \<open>The loss of the global crops (claim C7)\<close>

lemma batch_cross_entropy_append:
  assumes "length s0 = length t0" and "length s1 = length s0" and "0 < length s0"
  shows "batch_cross_entropy H (s0 @ s1) (t0 @ t1) * 2
           = batch_cross_entropy H s0 t0 + batch_cross_entropy H s1 t1"
proof -
  let ?b = "real (length s0)"
  have pos: "?b \<noteq> 0" using assms(3) by simp
  have "batch_cross_entropy H (s0 @ s1) (t0 @ t1)
          = (sum_list (map (\<lambda>(x, y). H x y) (zip s0 t0))
             + sum_list (map (\<lambda>(x, y). H x y) (zip s1 t1))) / (2 * ?b)"
    using assms(1,2) by (simp add: batch_cross_entropy_def)
  then show ?thesis
    using pos assms(2) by (simp add: batch_cross_entropy_def field_simps)
qed

lemma dino_global_crops_loss_value:
  assumes "student_global_cls_tokens_after_head out = s0 @ s1"
    and "teacher_dino_softmaxed_centered_list out = [t0, t1]"
    and "length s0 = length t0" and "length s1 = length s0" and "length t1 = length s0"
    and "0 < length s0"
  shows "dino_global_crops_loss H n_local_crops out
           = (batch_cross_entropy H s0 t0 + batch_cross_entropy H s1 t1)
               / of_nat (n_global_crops_loss_terms 2 + n_local_crops_loss_terms n_local_crops 2)
       \<and> n_global_crops_loss_terms 2 = 2 * (2 - 1)
       \<and> n_local_crops_loss_terms n_local_crops 2 = max (n_local_crops * 2) 1"
proof -
  have "dino_loss H [s0 @ s1] [t0 @ t1] * 2
          = batch_cross_entropy H s0 t0 + batch_cross_entropy H s1 t1"
    using batch_cross_entropy_append [OF assms(3,4,6)] by (simp add: dino_loss_def)
  then show ?thesis
    unfolding dino_global_crops_loss_def Let_def assms(1,2)
    by (simp add: n_global_crops_loss_terms_def n_local_crops_loss_terms_def)
qed

text \<open>
  Claim C7. For every training step, with two global crops and \<open>n_local\<close> local crops, the
  loss of the global crops is the sum of the cross-entropies of the two crop pairs (the
  student's first crop against the first batch of the teacher's swapped pseudo-targets, the
  second against the second) divided by \<open>global_loss_terms + local_loss_terms\<close>, where
  \<open>global_loss_terms = n_global * (n_global - 1)\<close> and
  \<open>local_loss_terms = max (n_local * n_global) 1\<close>, and by nothing else: the factor
  \<open>loss_scales = 2\<close> of the code makes up for the mean that one call on the two crops
  together takes over twice as many rows.
\<close>

theorem global_crops_loss_normalization:
  assumes "forward_backward arch H out = Inr losses"
    and "student_global_cls_tokens_after_head out = s0 @ s1"
    and "teacher_dino_softmaxed_centered_list out = [t0, t1]"
    and "length s0 = length t0" and "length s1 = length s0" and "length t1 = length s0"
    and "0 < length s0"
  shows "map_of losses ''dino_global_crops_loss''
           = Some ((batch_cross_entropy H s0 t0 + batch_cross_entropy H s1 t1)
                   / of_nat (2 * (2 - 1) + max (crops_local_crops_number (arch_cfg arch) * 2) 1))"
proof -
  let ?n = "crops_local_crops_number (arch_cfg arch)"
  have v: "dino_global_crops_loss H ?n out
           = (batch_cross_entropy H s0 t0 + batch_cross_entropy H s1 t1)
               / of_nat (2 * (2 - 1) + max (?n * 2) 1)"
    using dino_global_crops_loss_value [OF assms(2-7), of H ?n] by simp
  have "map_of losses ''dino_global_crops_loss'' = Some (dino_global_crops_loss H ?n out)"
    using assms(1) unfolding forward_backward_def Let_def
    by (auto split: if_splits sum.splits)
  then show ?thesis unfolding v .
qed

theorem global_crops_loss_normalization_witness:
  "forward_backward example_arch (\<lambda>x y. x * y) example_outputs
     = Inr [(''dino_local_crops_loss'', 5 / 6), (''dino_global_crops_loss'', 25 / 18),
            (''koleo_loss'', 1 / 5), (''ibot_loss'', 3)]
   \<and> batch_cross_entropy (\<lambda>x y. x * y) [1, 3] [1, 2 :: real] = 7 / 2
   \<and> batch_cross_entropy (\<lambda>x y. x * y) [5, 7] [3, 4 :: real] = 43 / 2
   \<and> map_of [(''dino_local_crops_loss'', 5 / 6), (''dino_global_crops_loss'', 25 / 18),
            (''koleo_loss'', 1 / 5), (''ibot_loss'', 3 :: real)] ''dino_global_crops_loss''
       = Some ((7 / 2 + 43 / 2) / 18)"
proof -
  have r: "forward_backward example_arch (\<lambda>x y. x * y) example_outputs
     = Inr [(''dino_local_crops_loss'', 5 / 6), (''dino_global_crops_loss'', 25 / 18),
            (''koleo_loss'', 1 / 5), (''ibot_loss'', 3)]"
    by (simp add: forward_backward_def example_arch_def example_cfg_def example_outputs_def
          select_centering_def dino_local_crops_loss_def dino_global_crops_loss_def
          dino_loss_def batch_cross_entropy_def n_global_crops_loss_terms_def
          n_local_crops_loss_terms_def of_rat_divide)
  have a: "batch_cross_entropy (\<lambda>x y. x * y) [1, 3] [1, 2 :: real] = 7 / 2"
    by (simp add: batch_cross_entropy_def)
  have b: "batch_cross_entropy (\<lambda>x y. x * y) [5, 7] [3, 4 :: real] = 43 / 2"
    by (simp add: batch_cross_entropy_def)
  have "map_of [(''dino_local_crops_loss'', 5 / 6), (''dino_global_crops_loss'', 25 / 18),
            (''koleo_loss'', 1 / 5), (''ibot_loss'', 3 :: real)] ''dino_global_crops_loss''
        = Some ((batch_cross_entropy (\<lambda>x y. x * y) [1, 3] [1, 2 :: real]
                 + batch_cross_entropy (\<lambda>x y. x * y) [5, 7] [3, 4 :: real])
                / of_nat (2 * (2 - 1) + max (crops_local_crops_number (arch_cfg example_arch) * 2) 1))"
    by (rule global_crops_loss_normalization [OF r, of "[1, 3]" "[5, 7]" "[1, 2]" "[3, 4]"])
       (simp_all add: example_outputs_def)
  then show ?thesis using r a b by (simp add: example_arch_def example_cfg_def)
qed

subsection \<open>An unsupported centering mode (claim C3)\<close>




section \<open>Properties of the training loop\<close>

subsection \<open>A total loss that is not finite (claim C2)\<close>




end
